theory Spec2Isabelle
  imports Complex_Main
begin

section \<open>The amortization engine of MortgageCalculator.py\<close>

text \<open>
  The function \<^verbatim>\<open>mortgage_calculator(loan_amount, annual_interest_rate, loan_years,
  payment_method)\<close> (lines 5 to 90) is embedded as a HOL function. The other two functions
  of the file print and export a schedule and are not modelled.

  \<^item> \<open>loan_years\<close> is a Python integer (it bounds a \<^verbatim>\<open>range\<close>), so it is an \<open>int\<close>;
    it may be zero or negative, the source does not check it.
  \<^item> \<open>loan_amount\<close> and \<open>annual_interest_rate\<close> are numbers. Their arithmetic is read
    exactly, over the rationals: every integer and every finite binary float denotes a
    rational, and \<^verbatim>\<open>+ - * / **\<close> compute the exact result, as they do in Python on
    \<^verbatim>\<open>fractions.Fraction\<close> arguments. The rounding, the overflow and the special values of
    binary floating point are not part of this model; every statement below about
    numbers is a statement about exact arithmetic.
  \<^item> \<open>payment_method\<close> is the string the source compares with \<^verbatim>\<open>==\<close>; the default
    value of the parameter is passed explicitly.
  \<^item> The exceptions of the source are values: \<^verbatim>\<open>/\<close> by zero and \<^verbatim>\<open>0 ** negative\<close> raise
    \<^verbatim>\<open>ZeroDivisionError\<close>, the final \<^verbatim>\<open>else\<close> raises \<^verbatim>\<open>ValueError\<close>.
\<close>

datatype py_error = ZeroDivisionError | ValueError

text \<open>A schedule entry is the tuple
  \<^verbatim>\<open>(month, payment, principal, interest, remaining_balance)\<close> the source appends.\<close>

type_synonym entry = "int \<times> rat \<times> rat \<times> rat \<times> rat"






text \<open>The two shapes of the returned tuple: three components for
  \<^verbatim>\<open>"equal_installment"\<close>, four for \<^verbatim>\<open>"equal_principal"\<close>, where the first and the last
  payment stay \<^verbatim>\<open>None\<close> when the loop never assigns them.\<close>

datatype result =
    Installment (monthly_payment_of: rat) (total_payment_of: rat)
      (monthly_details_of: "entry list")
  | Principal (first_month_payment_of: "rat option") (last_month_payment_of: "rat option")
      (total_payment_of: rat) (monthly_details_of: "entry list")

subsection \<open>Arithmetic that can raise\<close>

definition py_div :: "rat \<Rightarrow> rat \<Rightarrow> py_error + rat" where
  "py_div a b = (if b = 0 then Inl ZeroDivisionError else Inr (a / b))"

definition py_pow :: "rat \<Rightarrow> int \<Rightarrow> py_error + rat" where
  "py_pow b e =
     (if 0 \<le> e then Inr (b ^ nat e)
      else if b = 0 then Inl ZeroDivisionError
      else Inr (1 / b ^ nat (- e)))"

text \<open>\<^verbatim>\<open>range(1, total_months + 1)\<close>\<close>

definition month_range :: "int \<Rightarrow> int list" where
  "month_range total_months = [1..total_months]"

subsection \<open>Equal installment\<close>

text \<open>Lines 36 to 40: the fixed payment. The annuity formula evaluates the power in its
  numerator first, then the power in its denominator, then divides.\<close>

definition installment_payment :: "rat \<Rightarrow> rat \<Rightarrow> int \<Rightarrow> py_error + rat" where
  "installment_payment loan_amount monthly_interest_rate total_months =
     (if monthly_interest_rate = 0 then py_div loan_amount (of_int total_months)
      else
        (case py_pow (1 + monthly_interest_rate) total_months of
           Inl err \<Rightarrow> Inl err
         | Inr numerator_power \<Rightarrow>
             (case py_pow (1 + monthly_interest_rate) total_months of
                Inl err \<Rightarrow> Inl err
              | Inr denominator_power \<Rightarrow>
                  py_div (loan_amount * monthly_interest_rate * numerator_power)
                    (denominator_power - 1))))"

text \<open>Lines 47 to 58: the loop over the months, with the running balance and the list
  of details as its state.\<close>

fun installment_loop ::
  "rat \<Rightarrow> rat \<Rightarrow> int \<Rightarrow> int list \<Rightarrow> rat \<Rightarrow> entry list \<Rightarrow> entry list" where
  "installment_loop monthly_payment monthly_interest_rate total_months []
      remaining_balance monthly_details = monthly_details"
| "installment_loop monthly_payment monthly_interest_rate total_months (month # months)
      remaining_balance monthly_details =
     (let interest_payment = remaining_balance * monthly_interest_rate;
          principal_payment = monthly_payment - interest_payment;
          balance = remaining_balance - principal_payment;
          adjust = (month = total_months \<and> \<bar>balance\<bar> < 1 / 100);
          principal_payment' = (if adjust then principal_payment + balance else principal_payment);
          balance' = (if adjust then 0 else balance)
      in installment_loop monthly_payment monthly_interest_rate total_months months balance'
           (monthly_details @
              [(month, monthly_payment, principal_payment', interest_payment, balance')]))"

subsection \<open>Equal principal\<close>

text \<open>Lines 73 to 85: the loop state is
  \<^verbatim>\<open>(remaining_balance, first_month_payment, last_month_payment, total_payment,
  monthly_details)\<close>.\<close>

type_synonym principal_state = "rat \<times> rat option \<times> rat option \<times> rat \<times> entry list"

fun principal_loop ::
  "rat \<Rightarrow> rat \<Rightarrow> int \<Rightarrow> int list \<Rightarrow> principal_state \<Rightarrow> principal_state" where
  "principal_loop monthly_principal monthly_interest_rate total_months [] st = st"
| "principal_loop monthly_principal monthly_interest_rate total_months (month # months)
      (remaining_balance, first_month_payment, last_month_payment, total_payment,
       monthly_details) =
     (let interest_payment = remaining_balance * monthly_interest_rate;
          monthly_payment = monthly_principal + interest_payment;
          balance = remaining_balance - monthly_principal;
          total' = total_payment + monthly_payment;
          first' = (if month = 1 then Some monthly_payment else first_month_payment);
          last' = (if month = total_months then Some monthly_payment else last_month_payment)
      in principal_loop monthly_principal monthly_interest_rate total_months months
           (balance, first', last', total',
            monthly_details @
              [(month, monthly_payment, monthly_principal, interest_payment, balance)]))"

subsection \<open>The entry point\<close>

definition mortgage_calculator :: "rat \<Rightarrow> rat \<Rightarrow> int \<Rightarrow> string \<Rightarrow> py_error + result" where
  "mortgage_calculator loan_amount annual_interest_rate loan_years payment_method =
     (let monthly_interest_rate = annual_interest_rate / 12;
          total_months = loan_years * 12
      in
        if payment_method = ''equal_installment'' then
          (case installment_payment loan_amount monthly_interest_rate total_months of
             Inl err \<Rightarrow> Inl err
           | Inr monthly_payment \<Rightarrow>
               Inr (Installment monthly_payment (monthly_payment * of_int total_months)
                     (installment_loop monthly_payment monthly_interest_rate total_months
                        (month_range total_months) loan_amount [])))
        else if payment_method = ''equal_principal'' then
          (case py_div loan_amount (of_int total_months) of
             Inl err \<Rightarrow> Inl err
           | Inr monthly_principal \<Rightarrow>
               (case principal_loop monthly_principal monthly_interest_rate total_months
                       (month_range total_months) (loan_amount, None, None, 0, []) of
                  (remaining_balance, first_month_payment, last_month_payment, total_payment,
                   monthly_details) \<Rightarrow>
                    Inr (Principal first_month_payment last_month_payment total_payment
                          monthly_details)))
        else Inl ValueError)"

subsection \<open>Auxiliary functions\<close>

text \<open>The entries the equal-principal loop appends, as a function of the months still to
  run and the balance it starts from; \<open>principal_loop_details\<close> below shows that this
  is the list the loop builds.\<close>

fun principal_entries :: "rat \<Rightarrow> rat \<Rightarrow> int list \<Rightarrow> rat \<Rightarrow> entry list" where
  "principal_entries mp r [] rb = []"
| "principal_entries mp r (m # ms) rb =
     (m, mp + rb * r, mp, rb * r, rb - mp) # principal_entries mp r ms (rb - mp)"


section \<open>Properties of the loops\<close>





text \<open>The equal-installment loop only appends to the list it is given, so it can be
  unfolded one month at a time from the empty list.\<close>

lemma installment_loop_acc:
  "installment_loop mp r n ms rb acc = acc @ installment_loop mp r n ms rb []"
proof (induction ms arbitrary: rb acc)
  case Nil
  show ?case by simp
next
  case (Cons m ms)
  show ?case
    apply (simp only: installment_loop.simps Let_def)
    apply (subst Cons.IH)
    apply (subst (2) Cons.IH)
    apply simp
    done
qed

lemma installment_loop_Cons:
  "installment_loop mp r n (m # ms) rb [] =
     (let bal = rb - (mp - rb * r); adj = (m = n \<and> \<bar>bal\<bar> < 1 / 100)
      in (m, mp, if adj then mp - rb * r + bal else mp - rb * r, rb * r, if adj then 0 else bal)
           # installment_loop mp r n ms (if adj then 0 else bal) [])"
  apply (simp only: installment_loop.simps Let_def)
  apply (subst installment_loop_acc)
  apply simp
  done

declare installment_loop.simps(2) [simp del]

lemma installment_loop_length: "length (installment_loop mp r n ms rb []) = length ms"
  by (induction ms arbitrary: rb) (simp_all add: installment_loop_Cons Let_def)




lemma installment_loop_Nil_iff [simp]: "installment_loop mp r n ms rb [] = [] \<longleftrightarrow> ms = []"
  using installment_loop_length [of mp r n ms rb] by (cases ms) auto











lemma principal_entries_Nil_iff [simp]: "principal_entries mp r ms rb = [] \<longleftrightarrow> ms = []"
  by (cases ms) simp_all





section \<open>The entry point on its branches\<close>







section \<open>When the fixed payment is undefined\<close>






section \<open>The claims\<close>

text \<open>
  Throughout, a valid input is one with \<open>0 < loan_amount\<close>, \<open>0 < loan_years\<close> and
  \<open>0 \<le> annual_interest_rate\<close>, and the numbers are exact rationals.
\<close>











text \<open>
  Claim C7. Every payment method other than the two supported strings makes the call fail,
  whatever the other arguments are: the result is the \<^verbatim>\<open>ValueError\<close> of the final
  \<^verbatim>\<open>else\<close>, so no schedule, not even a partial one, is returned. (The source raises a
  \<^verbatim>\<open>ValueError\<close>; this is the error the specification calls UnsupportedPolicyError.)
\<close>

theorem unknown_method_rejected:
  assumes "payment_method \<noteq> ''equal_installment''"
    and "payment_method \<noteq> ''equal_principal''"
  shows "mortgage_calculator loan_amount annual_interest_rate loan_years payment_method
           = Inl ValueError"
  using assms by (simp add: mortgage_calculator_def)

theorem unknown_method_rejected_witness:
  "mortgage_calculator 1300000 (26 / 1000) 20 ''unknown'' = Inl ValueError"
  using unknown_method_rejected [of "''unknown''" 1300000 "26 / 1000" 20] by simp

text \<open>
  Claim C10. With \<open>loan_years = 0\<close> both supported payment methods reach a division by
  zero, for every loan amount and every rate: \<^verbatim>\<open>loan_amount / total_months\<close> with
  \<open>total_months = 0\<close>, or the annuity formula, whose denominator is
  \<open>(1 + r) ^ 0 - 1 = 0\<close>. The call fails with \<^verbatim>\<open>ZeroDivisionError\<close>; nothing validates
  the term before.
\<close>

theorem zero_years_divides_by_zero:
  "mortgage_calculator loan_amount annual_interest_rate 0 ''equal_installment''
     = Inl ZeroDivisionError
   \<and> mortgage_calculator loan_amount annual_interest_rate 0 ''equal_principal''
     = Inl ZeroDivisionError"
  by (simp add: mortgage_calculator_def installment_payment_def py_div_def py_pow_def Let_def)







end
